theory Spec2Isabelle
  imports Complex_Main
begin

text \<open>
  A model of the tender pipeline: the score of a tender for a subscriber and the creation
  of matches (matching service), the sector and region filters over the entries of the
  feed with the extraction of classification code and province (feed client), and the
  reconciliation of a fetched tender with the stored one (sync service). Every function
  below is named after the function of the source that it models; the clock and the store
  are arguments.
\<close>

section \<open>Strings\<close>

text \<open>
  A JavaScript string is read as a list of UTF-16 code units. The texts of this program
  are Spanish province names, sector labels and tender titles, so a \<^typ>\<open>char\<close> stands
  for one code unit below 256 (Basic Latin and Latin-1 Supplement): \<open>CHR 0xE1\<close> is the
  letter a with acute accent. The built-in string operations below are the restrictions
  of the JavaScript ones to that alphabet.
\<close>

text \<open>\<^verbatim>\<open>s.startsWith(p)\<close>\<close>

fun startsWith :: "string \<Rightarrow> string \<Rightarrow> bool" where
  "startsWith s [] = True"
| "startsWith [] (p # ps) = False"
| "startsWith (c # cs) (p # ps) = (c = p \<and> startsWith cs ps)"

text \<open>\<^verbatim>\<open>s.includes(p)\<close>: \<open>p\<close> occurs in \<open>s\<close> as a contiguous substring.\<close>

fun includes_str :: "string \<Rightarrow> string \<Rightarrow> bool" where
  "includes_str [] p = (p = [])"
| "includes_str (c # cs) p = (startsWith (c # cs) p \<or> includes_str cs p)"

text \<open>
  \<^verbatim>\<open>s.toLowerCase()\<close>: A to Z and the capital letters U+00C0 to U+00DE (the
  multiplication sign U+00D7 apart) move 32 code units up; every other code unit below 256
  is its own lower case.
\<close>

definition lower_char :: "char \<Rightarrow> char" where
  "lower_char c =
     (let n = (of_char c :: nat)
      in if (65 \<le> n \<and> n \<le> 90) \<or> (192 \<le> n \<and> n \<le> 222 \<and> n \<noteq> 215)
         then char_of (n + 32) else c)"

definition toLowerCase :: "string \<Rightarrow> string" where
  "toLowerCase s = map lower_char s"

text \<open>
  \<^verbatim>\<open>c.toUpperCase()\<close> on one code unit: a to z and U+00E0 to U+00FE (the division
  sign U+00F7 apart) move 32 code units down. The sharp s, the micro sign and the y with
  diaeresis have upper cases outside the alphabet; the program upper-cases first letters
  of gazetteer names only, none of which is one of these.
\<close>

definition upper_char :: "char \<Rightarrow> char" where
  "upper_char c =
     (let n = (of_char c :: nat)
      in if (97 \<le> n \<and> n \<le> 122) \<or> (224 \<le> n \<and> n \<le> 254 \<and> n \<noteq> 247)
         then char_of (n - 32) else c)"

section \<open>Matching service: data\<close>

text \<open>
  What \<^verbatim>\<open>new Date(s)\<close> makes of a stored date string: an instant in milliseconds
  since the epoch, or the invalid date, whose time value is NaN.
\<close>

datatype timestamp = Instant int | InvalidDate

text \<open>
  The columns of a row of the \<^verbatim>\<open>tenders\<close> table that matching reads. A nullable
  column is an option; \<open>title\<close> and \<open>work_type\<close> are always written by the sync
  (\<^verbatim>\<open>transformTenderData\<close> gives both a default), and the score function calls
  \<^verbatim>\<open>toLowerCase\<close> on them without a check.
\<close>

record tender =
  tender_id :: string
  title :: string
  work_type :: string
  province :: "string option"
  budget :: "real option"
  status :: string
  deadline :: "timestamp option"

text \<open>A row of \<^verbatim>\<open>user_profiles\<close>.\<close>

record user_profile =
  user_id :: string
  company_name :: string
  onboarding_completed :: bool
  preferred_province :: "string option"
  locations :: "string list option"
  budget_min :: "real option"
  budget_max :: "real option"
  sectors :: "string list option"

text \<open>JavaScript truthiness of a nullable number: neither null nor zero.\<close>

definition truthy_num :: "real option \<Rightarrow> bool" where
  "truthy_num x = (case x of None \<Rightarrow> False | Some r \<Rightarrow> r \<noteq> 0)"

section \<open>Matching service: the score\<close>

text \<open>
  \<^verbatim>\<open>calculateMatchScore\<close> adds to \<open>score\<close> in four steps. Each step is a
  function here, named after the comment that heads it in the source, and
  \<open>calculateMatchScore\<close> adds them in the source's order.
\<close>

text \<open>1. Match de provincia.\<close>

definition provinceScore :: "'a tender_scheme \<Rightarrow> 'b user_profile_scheme \<Rightarrow> int" where
  "provinceScore t u =
     (if preferred_province u = province t then 40
      else if (case locations u of
                 None \<Rightarrow> False
               | Some ls \<Rightarrow> (case province t of None \<Rightarrow> False | Some p \<Rightarrow> p \<in> set ls))
      then 40
      else 10)"

text \<open>2. Match de presupuesto.\<close>

definition budgetScore :: "'a tender_scheme \<Rightarrow> 'b user_profile_scheme \<Rightarrow> int" where
  "budgetScore t u =
     (if truthy_num (budget t) then
        (if truthy_num (budget_min u) \<and> truthy_num (budget_max u) then
           (let b = the (budget t); lo = the (budget_min u); hi = the (budget_max u)
            in if b \<ge> lo \<and> b \<le> hi then 30
               else if b \<ge> lo * 0.5 \<and> b \<le> hi * 2 then 20
               else 5)
         else 15)
      else 10)"

text \<open>
  3. Match de sector. The keyword table \<^verbatim>\<open>sectorKeywords\<close> is an object literal
  with four keys; it is read as the finite map of these four keys (a sector named like a
  property that every object inherits, such as \<^verbatim>\<open>constructor\<close>, is outside this
  model).
\<close>

definition sectorKeywords :: "(string \<times> string list) list" where
  "sectorKeywords =
     [(''Edificaci'' @ CHR 0xF3 # ''n residencial'',
         [''edificaci'' @ CHR 0xF3 # ''n'', ''edificio'', ''vivienda'', ''residencial'',
          ''pabell'' @ CHR 0xF3 # ''n'']),
      (''Obra civil'',
         [''obra civil'', ''infraestructura'', ''urbanizaci'' @ CHR 0xF3 # ''n'',
          ''pavimentaci'' @ CHR 0xF3 # ''n'', ''carretera'',
          ''ingenier'' @ CHR 0xED # ''a civil'']),
      (''Rehabilitaci'' @ CHR 0xF3 # ''n y reformas'',
         [''rehabilitaci'' @ CHR 0xF3 # ''n'', ''reforma'',
          ''restauraci'' @ CHR 0xF3 # ''n'', ''mejora'']),
      (''Instalaciones'',
         [''instalaci'' @ CHR 0xF3 # ''n'', ''instalaciones'',
          ''el'' @ CHR 0xE9 # ''ctrica'', ''fontaner'' @ CHR 0xED # ''a'',
          ''climatizaci'' @ CHR 0xF3 # ''n''])]"

text \<open>\<^verbatim>\<open>sectorKeywords[sector] || [sector.toLowerCase()]\<close>\<close>

definition keywordsOf :: "string \<Rightarrow> string list" where
  "keywordsOf sector =
     (case map_of sectorKeywords sector of
        Some ks \<Rightarrow> ks
      | None \<Rightarrow> [toLowerCase sector])"

text \<open>The inner loop: some keyword occurs in the work type or in the title.\<close>

fun keywordHit :: "string \<Rightarrow> string \<Rightarrow> string list \<Rightarrow> bool" where
  "keywordHit tenderType tenderTitle [] = False"
| "keywordHit tenderType tenderTitle (keyword # keywords) =
     (if includes_str tenderType keyword \<or> includes_str tenderTitle keyword then True
      else keywordHit tenderType tenderTitle keywords)"

text \<open>The outer loop over the user's sectors, left at the first sector that hits.\<close>

fun hasSectorMatch :: "string \<Rightarrow> string \<Rightarrow> string list \<Rightarrow> bool" where
  "hasSectorMatch tenderType tenderTitle [] = False"
| "hasSectorMatch tenderType tenderTitle (sector # rest) =
     (if keywordHit tenderType tenderTitle (keywordsOf sector) then True
      else hasSectorMatch tenderType tenderTitle rest)"

definition sectorScore :: "'a tender_scheme \<Rightarrow> 'b user_profile_scheme \<Rightarrow> int" where
  "sectorScore t u =
     (case sectors u of
        None \<Rightarrow> 15
      | Some ss \<Rightarrow>
          (if length ss > 0 then
             (if hasSectorMatch (toLowerCase (work_type t)) (toLowerCase (title t)) ss
              then 20 else 10)
           else 15))"

text \<open>
  \<^verbatim>\<open>getDaysUntilDeadline\<close>: the clock (\<^verbatim>\<open>new Date()\<close>) is the argument
  \<open>now\<close>, in milliseconds. \<open>None\<close> is NaN, the result for an invalid date.
\<close>

definition getDaysUntilDeadline :: "int \<Rightarrow> timestamp \<Rightarrow> int option" where
  "getDaysUntilDeadline now d =
     (case d of
        InvalidDate \<Rightarrow> None
      | Instant deadlineDate \<Rightarrow>
          Some \<lceil>real_of_int (deadlineDate - now) / (1000 * 60 * 60 * 24)\<rceil>)"

text \<open>4. Estado y disponibilidad: the status points, then the deadline points.\<close>

definition statusScore :: "'a tender_scheme \<Rightarrow> int" where
  "statusScore t = (if status t = ''active'' then 5 else 0)"

definition deadlineScore :: "int \<Rightarrow> 'a tender_scheme \<Rightarrow> int" where
  "deadlineScore now t =
     (case deadline t of
        None \<Rightarrow> 0
      | Some d \<Rightarrow>
          (case getDaysUntilDeadline now d of
             None \<Rightarrow> 0
           | Some daysUntilDeadline \<Rightarrow>
               (if daysUntilDeadline > 15 then 5
                else if daysUntilDeadline > 7 then 3
                else 0)))"

definition calculateMatchScore ::
  "int \<Rightarrow> 'a tender_scheme \<Rightarrow> 'b user_profile_scheme \<Rightarrow> int" where
  "calculateMatchScore now t u =
     min (provinceScore t u + budgetScore t u + sectorScore t u
          + statusScore t + deadlineScore now t) 100"

section \<open>Matching service: the store\<close>

text \<open>
  The tables of the store that the matching service reads and writes. A row of
  \<^verbatim>\<open>companies\<close>:
\<close>

record company =
  c_user_id :: string
  c_subscription_status :: "string option"
  c_subscription_tier :: "string option"

text \<open>
  A candidate user: the profile spread into a new object, with the subscription columns
  of the user's company (\<open>None\<close> when no company row is found).
\<close>

record user = user_profile +
  subscription_status :: "string option"
  subscription_tier :: "string option"

text \<open>
  The reasons stored with a match are formatted strings; each is kept here as the value
  it is formatted from.
\<close>

datatype reason =
    Ubicacion "string option"
  | Presupuesto real
  | Sector string
  | Plazo "int option"
  | MatchScore int

text \<open>A row of \<^verbatim>\<open>user_tender_matches\<close>.\<close>

record match_row =
  m_user_id :: string
  m_tender_id :: string
  match_score :: int
  match_reasons :: "reason list"
  m_status :: string
  created_at :: int

text \<open>
  The store as the matching service sees it: three tables, and what the store answers
  to a request. A failed \<^verbatim>\<open>select\<close> on \<^verbatim>\<open>companies\<close> or on
  \<^verbatim>\<open>user_profiles\<close> comes back as an error object; an \<^verbatim>\<open>insert\<close> into
  \<^verbatim>\<open>user_tender_matches\<close> may be refused. The \<^verbatim>\<open>select\<close> on
  \<^verbatim>\<open>user_tender_matches\<close> is answered from the table.
\<close>

record matching_store =
  companies :: "company list"
  user_profiles :: "user_profile list"
  user_tender_matches :: "match_row list"
  companies_error :: bool
  profiles_error :: bool
  insert_error :: "match_row \<Rightarrow> bool"

text \<open>\<^verbatim>\<open>.single()\<close>: the row when the query selects exactly one, otherwise no data.\<close>

fun single :: "'a list \<Rightarrow> 'a option" where
  "single [r] = Some r"
| "single rs = None"

text \<open>\<^verbatim>\<open>.in('subscription_status', ['trial', 'active'])\<close>\<close>

definition activeSubscription :: "company \<Rightarrow> bool" where
  "activeSubscription c =
     (c_subscription_status c = Some ''trial'' \<or> c_subscription_status c = Some ''active'')"

text \<open>The filter of \<^verbatim>\<open>getUsersByProvince\<close>, its local \<^verbatim>\<open>hasProvince\<close>.\<close>

definition hasProvince :: "string option \<Rightarrow> 'a user_profile_scheme \<Rightarrow> bool" where
  "hasProvince prov profile =
     (preferred_province profile = prov \<or>
      (case locations profile of
         None \<Rightarrow> False
       | Some ls \<Rightarrow> (case prov of None \<Rightarrow> False | Some p \<Rightarrow> p \<in> set ls)))"

text \<open>The last step of \<^verbatim>\<open>getUsersByProvince\<close>: profile and company combined.\<close>

definition combine :: "company list \<Rightarrow> user_profile \<Rightarrow> user" where
  "combine cs profile =
     (let company = find (\<lambda>c. c_user_id c = user_id profile) cs
      in user_profile.extend profile
           (user.fields
              (case company of None \<Rightarrow> None | Some c \<Rightarrow> c_subscription_status c)
              (case company of None \<Rightarrow> None | Some c \<Rightarrow> c_subscription_tier c)))"

definition getUsersByProvince :: "matching_store \<Rightarrow> string option \<Rightarrow> user list" where
  "getUsersByProvince db prov =
     (if companies_error db then []
      else
        let activeUsers = filter activeSubscription (companies db)
        in if activeUsers = [] then []
           else
             let userIds = map c_user_id activeUsers
             in if profiles_error db then []
                else
                  let profiles =
                        filter (\<lambda>p. user_id p \<in> set userIds \<and> onboarding_completed p)
                          (user_profiles db);
                      usersInProvince = filter (hasProvince prov) profiles;
                      cs = filter (\<lambda>c. c_user_id c \<in> set (map user_id usersInProvince)
                                        \<and> activeSubscription c)
                             (companies db)
                  in map (combine cs) usersInProvince)"

text \<open>\<^verbatim>\<open>getMatchReasons\<close>\<close>

definition getMatchReasons ::
  "int \<Rightarrow> 'a tender_scheme \<Rightarrow> 'b user_profile_scheme \<Rightarrow> int \<Rightarrow> reason list" where
  "getMatchReasons now t u score =
     (if preferred_province u = province t then [Ubicacion (province t)] else [])
     @ (if truthy_num (budget t) \<and> truthy_num (budget_min u) \<and> truthy_num (budget_max u)
           \<and> the (budget t) \<ge> the (budget_min u) \<and> the (budget t) \<le> the (budget_max u)
        then [Presupuesto (the (budget t))] else [])
     @ (case sectors u of
          None \<Rightarrow> []
        | Some ss \<Rightarrow> (if length ss > 0 then [Sector (work_type t)] else []))
     @ (case deadline t of
          None \<Rightarrow> []
        | Some d \<Rightarrow> [Plazo (getDaysUntilDeadline now d)])
     @ [MatchScore score]"

text \<open>
  \<^verbatim>\<open>createMatch\<close> returns the store and the created row, or \<open>None\<close> for the
  source's \<^verbatim>\<open>null\<close>: the match exists already, or the insert was refused (the error
  is thrown and caught inside the function).
\<close>

definition matchesFor :: "matching_store \<Rightarrow> string \<Rightarrow> string \<Rightarrow> match_row list" where
  "matchesFor db uid tid =
     filter (\<lambda>m. m_user_id m = uid \<and> m_tender_id m = tid) (user_tender_matches db)"

text \<open>The invariant of the table: at most one match for a pair of user and tender.\<close>

definition uniqueMatches :: "matching_store \<Rightarrow> bool" where
  "uniqueMatches db =
     distinct (map (\<lambda>m. (m_user_id m, m_tender_id m)) (user_tender_matches db))"

definition newMatch ::
  "int \<Rightarrow> 'b user_profile_scheme \<Rightarrow> 'a tender_scheme \<Rightarrow> int \<Rightarrow> match_row" where
  "newMatch now u t matchScore =
     \<lparr>m_user_id = user_id u, m_tender_id = tender_id t, match_score = matchScore,
      match_reasons = getMatchReasons now t u matchScore, m_status = ''new'',
      created_at = now\<rparr>"

definition createMatch ::
  "int \<Rightarrow> matching_store \<Rightarrow> 'b user_profile_scheme \<Rightarrow> 'a tender_scheme \<Rightarrow> int
     \<Rightarrow> matching_store \<times> match_row option" where
  "createMatch now db u t matchScore =
     (case single (matchesFor db (user_id u) (tender_id t)) of
        Some existing \<Rightarrow> (db, None)
      | None \<Rightarrow>
          (let row = newMatch now u t matchScore
           in if insert_error db row then (db, None)
              else (db\<lparr>user_tender_matches := user_tender_matches db @ [row]\<rparr>, Some row)))"

text \<open>
  \<^verbatim>\<open>matchesByUser[user.user_id] = (matchesByUser[user.user_id] || 0) + 1\<close> on an
  object whose keys keep their insertion order.
\<close>

fun countMatch :: "string \<Rightarrow> (string \<times> nat) list \<Rightarrow> (string \<times> nat) list" where
  "countMatch k [] = [(k, 1)]"
| "countMatch k ((k', n) # rest) =
     (if k = k' then (k', n + 1) # rest else (k', n) # countMatch k rest)"

text \<open>
  The state of the two loops of \<^verbatim>\<open>matchTendersWithUsers\<close>: the store,
  \<^verbatim>\<open>totalMatches\<close> and \<^verbatim>\<open>matchesByUser\<close>.
\<close>

type_synonym match_state = "matching_store \<times> nat \<times> (string \<times> nat) list"

text \<open>The body of the inner loop, for one candidate user.\<close>

definition matchUser ::
  "int \<Rightarrow> 'a tender_scheme \<Rightarrow> match_state \<Rightarrow> 'b user_profile_scheme \<Rightarrow> match_state" where
  "matchUser now t st u =
     (case st of (db, totalMatches, matchesByUser) \<Rightarrow>
        (let matchScore = calculateMatchScore now t u
         in if matchScore \<ge> 60 then
              (case createMatch now db u t matchScore of
                 (db', Some m) \<Rightarrow> (db', totalMatches + 1, countMatch (user_id u) matchesByUser)
               | (db', None) \<Rightarrow> (db', totalMatches, matchesByUser))
            else (db, totalMatches, matchesByUser)))"

text \<open>
  The body of the outer loop, for one tender. Its \<^verbatim>\<open>try\<close> has nothing to catch
  here: \<^verbatim>\<open>getUsersByProvince\<close> and \<^verbatim>\<open>createMatch\<close> catch their own
  errors, and the score is total on these types.
\<close>

definition matchTender :: "int \<Rightarrow> match_state \<Rightarrow> 'a tender_scheme \<Rightarrow> match_state" where
  "matchTender now st t =
     (case st of (db, totalMatches, matchesByUser) \<Rightarrow>
        foldl (matchUser now t) st (getUsersByProvince db (province t)))"

record match_result =
  totalMatches :: nat
  usersMatched :: nat
  matchesByUser :: "(string \<times> nat) list"

definition matchTendersWithUsers ::
  "int \<Rightarrow> matching_store \<Rightarrow> 'a tender_scheme list \<Rightarrow> matching_store \<times> match_result" where
  "matchTendersWithUsers now db tenders =
     (case foldl (matchTender now) (db, 0, []) tenders of
        (db', count, byUser) \<Rightarrow>
          (db', \<lparr>totalMatches = count, usersMatched = length byUser,
                 matchesByUser = byUser\<rparr>))"

section \<open>Feed entries\<close>

text \<open>
  An entry of the parsed feed (xml2js with \<^verbatim>\<open>explicitArray: false\<close> and
  \<^verbatim>\<open>mergeAttrs: true\<close>): a string, an object from keys to values, or an array.
\<close>

datatype xml = XStr string | XObj "(string \<times> xml) list" | XArr "xml list"

text \<open>
  \<^verbatim>\<open>v[k]\<close> for a value \<open>v\<close> that is neither null nor undefined; \<open>None\<close> is
  \<^verbatim>\<open>undefined\<close>. The keys the program asks for are element names, which strings and
  arrays do not have.
\<close>

fun get_prop :: "xml \<Rightarrow> string \<Rightarrow> xml option" where
  "get_prop (XObj kvs) k = map_of kvs k"
| "get_prop (XStr s) k = None"
| "get_prop (XArr xs) k = None"

text \<open>\<^verbatim>\<open>v?.[k]\<close>: undefined stays undefined.\<close>

definition opt_prop :: "xml option \<Rightarrow> string \<Rightarrow> xml option" where
  "opt_prop v k = (case v of None \<Rightarrow> None | Some x \<Rightarrow> get_prop x k)"

text \<open>Truthiness: undefined and the empty string are falsy, every object and array is truthy.\<close>

fun truthy :: "xml option \<Rightarrow> bool" where
  "truthy None = False"
| "truthy (Some (XStr s)) = (s \<noteq> [])"
| "truthy (Some (XObj kvs)) = True"
| "truthy (Some (XArr xs)) = True"

text \<open>\<^verbatim>\<open>a || b\<close>\<close>

definition or_js :: "xml option \<Rightarrow> xml option \<Rightarrow> xml option" where
  "or_js a b = (if truthy a then a else b)"

text \<open>\<^verbatim>\<open>a || null\<close>\<close>

definition or_null :: "xml option \<Rightarrow> xml option" where
  "or_null a = (if truthy a then a else None)"

text \<open>
  Conversion to a string, as \<^verbatim>\<open>toString()\<close> and a template literal do it: an
  array joins the strings of its elements with commas.
\<close>

fun join_comma :: "string list \<Rightarrow> string" where
  "join_comma [] = []"
| "join_comma [s] = s"
| "join_comma (s # r # rest) = s @ '','' @ join_comma (r # rest)"

fun toString :: "xml \<Rightarrow> string" where
  "toString (XStr s) = s"
| "toString (XObj kvs) = ''[object Object]''"
| "toString (XArr xs) = join_comma (map toString xs)"

text \<open>The one exception these functions meet: a property read on \<^verbatim>\<open>undefined\<close>.\<close>

datatype js_error = TypeError

text \<open>
  \<^verbatim>\<open>Array.isArray(v) ? v[0][k] : v[k]\<close>: the first element of an empty array is
  undefined, and reading its property throws.
\<close>

fun first_prop :: "xml \<Rightarrow> string \<Rightarrow> js_error + xml option" where
  "first_prop (XArr []) k = Inl TypeError"
| "first_prop (XArr (x # xs)) k = Inr (get_prop x k)"
| "first_prop (XStr s) k = Inr (get_prop (XStr s) k)"
| "first_prop (XObj kvs) k = Inr (get_prop (XObj kvs) k)"

text \<open>\<^verbatim>\<open>entry['cac-place-ext:ContractFolderStatus'] || entry.ContractFolderStatus\<close>\<close>

definition contractFolderOf :: "xml \<Rightarrow> xml option" where
  "contractFolderOf entry =
     or_js (get_prop entry ''cac-place-ext:ContractFolderStatus'') (get_prop entry ''ContractFolderStatus'')"

text \<open>\<^verbatim>\<open>extractCPV\<close>; its \<^verbatim>\<open>catch\<close> returns null.\<close>

definition extractCPV :: "xml \<Rightarrow> xml option" where
  "extractCPV entry =
     (case contractFolderOf entry of
        None \<Rightarrow> None
      | Some contractFolder \<Rightarrow>
          if \<not> truthy (Some contractFolder) then None
          else
            (case get_prop contractFolder ''cac:ProcurementProject'' of
               None \<Rightarrow> None
             | Some procurementProject \<Rightarrow>
                 if \<not> truthy (Some procurementProject) then None
                 else
                   (case get_prop procurementProject ''cac:RequiredCommodityClassification'' of
                      None \<Rightarrow> None
                    | Some requiredCommodity \<Rightarrow>
                        if \<not> truthy (Some requiredCommodity) then None
                        else
                          (case first_prop requiredCommodity ''cbc:ItemClassificationCode'' of
                             Inl err \<Rightarrow> None
                           | Inr itemClass \<Rightarrow>
                               or_null (or_js (opt_prop itemClass ''_'') itemClass)))))"

text \<open>\<^verbatim>\<open>filterByConstruction\<close>\<close>

definition filterByConstruction :: "xml list \<Rightarrow> xml list" where
  "filterByConstruction entries =
     filter (\<lambda>entry.
        let cpvCode = extractCPV entry
        in if \<not> truthy cpvCode then False
           else (case cpvCode of
                   None \<Rightarrow> False
                 | Some c \<Rightarrow> startsWith (toString c) ''45'')) entries"

text \<open>\<^verbatim>\<open>extractContractingBody\<close>; its argument may be undefined, and then the first
  property read throws and the \<^verbatim>\<open>catch\<close> returns the default.\<close>

definition extractContractingBody :: "xml option \<Rightarrow> xml" where
  "extractContractingBody contractFolder =
     (case contractFolder of
        None \<Rightarrow> XStr ''No especificado''
      | Some cf \<Rightarrow>
          (let party = opt_prop (get_prop cf ''cac:LocatedContractingParty'') ''cac:Party'';
               name = opt_prop (opt_prop party ''cac:PartyName'') ''cbc:Name''
           in case or_js (or_js (opt_prop name ''_'') name) (Some (XStr ''No especificado'')) of
                None \<Rightarrow> XStr ''No especificado''
              | Some v \<Rightarrow> v))"

text \<open>The list \<^verbatim>\<open>provincias\<close> of \<^verbatim>\<open>extractProvince\<close>, in its order.\<close>

definition provincias :: "string list" where
  "provincias =
     [CHR 0xE1 # ''lava'', ''albacete'', ''alicante'', ''almer'' @ CHR 0xED # ''a'',
      ''asturias'', CHR 0xE1 # ''vila'',
      ''badajoz'', ''barcelona'', ''burgos'', ''c'' @ CHR 0xE1 # ''ceres'',
      ''c'' @ CHR 0xE1 # ''diz'', ''cantabria'',
      ''castell'' @ CHR 0xF3 # ''n'', ''ciudad real'', ''c'' @ CHR 0xF3 # ''rdoba'', ''cuenca'',
      ''gerona'', ''girona'', ''granada'',
      ''guadalajara'', ''guip'' @ CHR 0xFA # ''zcoa'', ''gipuzkoa'', ''huelva'', ''huesca'',
      ''baleares'',
      ''ja'' @ CHR 0xE9 # ''n'', ''coru'' @ CHR 0xF1 # ''a'', ''rioja'', ''palmas'',
      ''le'' @ CHR 0xF3 # ''n'', ''l'' @ CHR 0xE9 # ''rida'', ''lleida'',
      ''lugo'', ''madrid'', ''m'' @ CHR 0xE1 # ''laga'', ''malaga'', ''murcia'', ''navarra'',
      ''orense'', ''ourense'', ''palencia'',
      ''pontevedra'', ''salamanca'', ''tenerife'', ''segovia'',
      ''sevilla'', ''soria'', ''tarragona'', ''teruel'', ''toledo'', ''valencia'',
      ''valladolid'', ''vizcaya'', ''bizkaia'', ''zamora'', ''zaragoza'']"

text \<open>\<^verbatim>\<open>provincia.charAt(0).toUpperCase() + provincia.slice(1)\<close>\<close>

fun capitalize :: "string \<Rightarrow> string" where
  "capitalize [] = []"
| "capitalize (c # cs) = upper_char c # cs"

text \<open>The loop over \<^verbatim>\<open>provincias\<close>: the first name that the text includes.\<close>

fun searchProvincia :: "string \<Rightarrow> string list \<Rightarrow> string option" where
  "searchProvincia text [] = None"
| "searchProvincia text (provincia # rest) =
     (if includes_str text provincia then Some (capitalize provincia)
      else searchProvincia text rest)"

text \<open>
  Method 1 of \<^verbatim>\<open>extractProvince\<close>, the structured fields: \<open>Inr (Some v)\<close> is
  returned by the function, \<open>Inr None\<close> lets it go on to the text search, \<open>Inl\<close> is
  an exception, which the function's \<^verbatim>\<open>catch\<close> turns into null.
\<close>

definition structuredProvince :: "xml \<Rightarrow> js_error + xml option" where
  "structuredProvince entry =
     (let contractFolder = contractFolderOf entry
      in if truthy contractFolder then
           (let locatedContract =
                  opt_prop (opt_prop contractFolder ''cac:ProcurementProject'')
                    ''cac:RealizedLocation''
            in if truthy locatedContract then
                 (case locatedContract of
                    None \<Rightarrow> Inr None
                  | Some lc \<Rightarrow>
                      (case first_prop lc ''cac:Address'' of
                         Inl err \<Rightarrow> Inl err
                       | Inr address \<Rightarrow>
                           (let province =
                                  or_js (opt_prop address ''cbc:CountrySubentityCode'')
                                    (opt_prop address ''cbc:CountrySubentity'');
                                found = or_js (opt_prop province ''_'') province
                            in if truthy found then Inr found else Inr None)))
               else Inr None)
         else Inr None)"

text \<open>
  \<^verbatim>\<open>entry.title?._ || entry.title || ''\<close> inside the template literal, and the
  same for the summary.
\<close>

definition fieldText :: "xml \<Rightarrow> string \<Rightarrow> string" where
  "fieldText entry k =
     (case or_js (opt_prop (get_prop entry k) ''_'') (get_prop entry k) of
        None \<Rightarrow> []
      | Some v \<Rightarrow> if truthy (Some v) then toString v else [])"

definition entryText :: "xml \<Rightarrow> string" where
  "entryText entry = fieldText entry ''title'' @ '' '' @ fieldText entry ''summary''"

text \<open>\<^verbatim>\<open>extractProvince\<close>\<close>

definition extractProvince :: "xml \<Rightarrow> xml option" where
  "extractProvince entry =
     (case structuredProvince entry of
        Inl err \<Rightarrow> None
      | Inr (Some v) \<Rightarrow> Some v
      | Inr None \<Rightarrow>
          (case searchProvincia (toLowerCase (entryText entry)) provincias of
             Some p \<Rightarrow> Some (XStr p)
           | None \<Rightarrow>
               (case extractContractingBody (contractFolderOf entry) of
                  XStr contractingBody \<Rightarrow>
                    (case searchProvincia (toLowerCase contractingBody) provincias of
                       Some p \<Rightarrow> Some (XStr p)
                     | None \<Rightarrow> None)
                | XObj kvs \<Rightarrow> None
                | XArr xs \<Rightarrow> None)))"

text \<open>
  \<^verbatim>\<open>normalize('NFD')\<close> followed by the deletion of the combining marks U+0300 to
  U+036F (\<^verbatim>\<open>replace\<close>), on one code unit below 256:
  a letter with a grave, acute, circumflex, tilde, diaeresis, ring or cedilla decomposes
  into its base letter and a combining mark of the deleted range; every other code unit
  stays.
\<close>

definition base_char :: "char \<Rightarrow> char" where
  "base_char c =
     (let n = (of_char c :: nat)
      in if 192 \<le> n \<and> n \<le> 197 then CHR ''A''
         else if n = 199 then CHR ''C''
         else if 200 \<le> n \<and> n \<le> 203 then CHR ''E''
         else if 204 \<le> n \<and> n \<le> 207 then CHR ''I''
         else if n = 209 then CHR ''N''
         else if 210 \<le> n \<and> n \<le> 214 then CHR ''O''
         else if 217 \<le> n \<and> n \<le> 220 then CHR ''U''
         else if n = 221 then CHR ''Y''
         else if 224 \<le> n \<and> n \<le> 229 then CHR ''a''
         else if n = 231 then CHR ''c''
         else if 232 \<le> n \<and> n \<le> 235 then CHR ''e''
         else if 236 \<le> n \<and> n \<le> 239 then CHR ''i''
         else if n = 241 then CHR ''n''
         else if 242 \<le> n \<and> n \<le> 246 then CHR ''o''
         else if 249 \<le> n \<and> n \<le> 252 then CHR ''u''
         else if n = 253 \<or> n = 255 then CHR ''y''
         else c)"

definition stripDiacritics :: "string \<Rightarrow> string" where
  "stripDiacritics s = map base_char s"

text \<open>\<^verbatim>\<open>trim()\<close>: tab to carriage return, space and no-break space.\<close>

definition is_space :: "char \<Rightarrow> bool" where
  "is_space c =
     (let n = (of_char c :: nat) in (9 \<le> n \<and> n \<le> 13) \<or> n = 32 \<or> n = 160)"

definition trim :: "string \<Rightarrow> string" where
  "trim s = rev (dropWhile is_space (rev (dropWhile is_space s)))"

text \<open>\<^verbatim>\<open>normalizeProvince\<close> on a string; the empty string is the falsy one.\<close>

definition normalizeProvince :: "string \<Rightarrow> string" where
  "normalizeProvince prov =
     (if prov = [] then [] else trim (stripDiacritics (toLowerCase prov)))"


section \<open>Sync service\<close>

text \<open>
  A tender as \<^verbatim>\<open>transformEntry\<close> hands it to the sync service, with the fields
  that \<^verbatim>\<open>processTenders\<close> and \<^verbatim>\<open>transformTenderData\<close> read.
\<close>

record placsp_tender =
  p_id :: string
  p_contract_folder_id :: "string option"
  p_title :: string
  p_summary :: string
  p_description :: string
  p_contracting_body :: string
  p_province :: "string option"
  p_cpv_code :: "string option"
  p_budget :: "real option"
  p_published :: "string option"
  p_updated :: "string option"
  p_deadline :: "timestamp option"
  p_link :: "string option"
  p_status :: string

text \<open>
  The object that \<^verbatim>\<open>transformTenderData\<close> builds, the payload of an insert or an
  update. The columns with a constant value (\<^verbatim>\<open>source_system\<close>,
  \<^verbatim>\<open>source_name\<close>, \<^verbatim>\<open>municipality\<close>, \<^verbatim>\<open>requirements\<close>,
  \<^verbatim>\<open>contact_email\<close>, \<^verbatim>\<open>inserted_by\<close>) and the JSON text of
  \<^verbatim>\<open>raw_content\<close> are left out.
\<close>

record tender_data =
  data_external_id :: string
  data_title :: string
  data_description :: string
  data_contracting_body :: string
  data_province :: string
  data_region :: "string option"
  data_work_type :: string
  data_budget :: "real option"
  data_publication_date :: string
  data_deadline :: "timestamp option"
  data_cpv_code :: string
  data_status :: string
  data_source_url :: "string option"
  data_is_active :: bool
  data_fetched_at :: int

text \<open>
  A stored row of \<^verbatim>\<open>tenders\<close>: the columns matching reads, and the others.
  \<open>updated_at\<close> is in milliseconds since the epoch.
\<close>

record tender_row = tender +
  external_id :: string
  description :: string
  contracting_body :: string
  region :: "string option"
  publication_date :: string
  cpv_code :: string
  source_url :: "string option"
  is_active :: bool
  fetched_at :: int
  updated_at :: int

text \<open>\<^verbatim>\<open>s || d\<close> for strings.\<close>

definition or_str :: "string option \<Rightarrow> string \<Rightarrow> string" where
  "or_str s d = (case s of None \<Rightarrow> d | Some x \<Rightarrow> if x = [] then d else x)"

text \<open>\<^verbatim>\<open>determineWorkType\<close>\<close>

definition determineWorkType :: "string option \<Rightarrow> string" where
  "determineWorkType cpvCode =
     (case cpvCode of
        None \<Rightarrow> ''Construcci'' @ CHR 0xF3 # ''n General''
      | Some cpv \<Rightarrow>
          if cpv = [] then ''Construcci'' @ CHR 0xF3 # ''n General''
          else if startsWith cpv ''4521'' then ''Edificaci'' @ CHR 0xF3 # ''n''
          else if startsWith cpv ''4522'' then ''Ingenier'' @ CHR 0xED # ''a Civil''
          else if startsWith cpv ''4511'' then ''Demolici'' @ CHR 0xF3 # ''n''
          else if startsWith cpv ''4531'' then ''Instalaciones El'' @ CHR 0xE9 # ''ctricas''
          else if startsWith cpv ''4532''
            then ''Fontaner'' @ CHR 0xED # ''a y Climatizaci'' @ CHR 0xF3 # ''n''
          else if startsWith cpv ''4541'' then ''Rehabilitaci'' @ CHR 0xF3 # ''n''
          else ''Construcci'' @ CHR 0xF3 # ''n General'')"

text \<open>\<^verbatim>\<open>getRegionFromProvince\<close>; the table is read as the map of its nine keys.\<close>

definition regionMap :: "(string \<times> string) list" where
  "regionMap =
     [(''Madrid'', ''Comunidad de Madrid''),
      (''M'' @ CHR 0xE1 # ''laga'', ''Andaluc'' @ CHR 0xED # ''a''),
      (''Sevilla'', ''Andaluc'' @ CHR 0xED # ''a''),
      (''Barcelona'', ''Catalu'' @ CHR 0xF1 # ''a''),
      (''Valencia'', ''Comunidad Valenciana''),
      (''Alicante'', ''Comunidad Valenciana''),
      (''Vizcaya'', ''Pa'' @ CHR 0xED # ''s Vasco''),
      (''Guip'' @ CHR 0xFA # ''zcoa'', ''Pa'' @ CHR 0xED # ''s Vasco''),
      (CHR 0xC1 # ''lava'', ''Pa'' @ CHR 0xED # ''s Vasco'')]"

definition getRegionFromProvince :: "string option \<Rightarrow> string option" where
  "getRegionFromProvince prov =
     (case prov of None \<Rightarrow> None | Some p \<Rightarrow> map_of regionMap p)"

text \<open>\<^verbatim>\<open>mapStatus\<close>\<close>

definition statusMap :: "(string \<times> string) list" where
  "statusMap =
     [(''PUB'', ''active''), (''ADJ'', ''awarded''), (''EV'', ''active''),
      (''RES'', ''closed''), (''AN'', ''closed'')]"

definition mapStatus :: "string \<Rightarrow> string" where
  "mapStatus statusCode =
     (case map_of statusMap statusCode of None \<Rightarrow> ''active'' | Some s \<Rightarrow> s)"

text \<open>
  \<^verbatim>\<open>transformTenderData\<close>. The clock is read twice: \<open>now\<close> is the instant of
  \<^verbatim>\<open>fetched_at\<close>, \<open>today\<close> the date text that stands in for a missing
  publication date.
\<close>

definition transformTenderData :: "int \<Rightarrow> string \<Rightarrow> placsp_tender \<Rightarrow> tender_data" where
  "transformTenderData now today t =
     \<lparr>data_external_id = or_str (p_contract_folder_id t) (p_id t),
      data_title = or_str (Some (p_title t)) (''Sin t'' @ CHR 0xED # ''tulo''),
      data_description = or_str (Some (p_description t)) (or_str (Some (p_summary t)) []),
      data_contracting_body = or_str (Some (p_contracting_body t)) ''No especificado'',
      data_province = or_str (p_province t) ''Sin especificar'',
      data_region = getRegionFromProvince (p_province t),
      data_work_type = determineWorkType (p_cpv_code t),
      data_budget = p_budget t,
      data_publication_date = or_str (p_published t) (or_str (p_updated t) today),
      data_deadline = p_deadline t,
      data_cpv_code = or_str (p_cpv_code t) ''45000000'',
      data_status = mapStatus (p_status t),
      data_source_url = (case p_link t of None \<Rightarrow> None
                         | Some l \<Rightarrow> if l = [] then None else Some l),
      data_is_active = True,
      data_fetched_at = now\<rparr>"

text \<open>
  \<^verbatim>\<open>.update(tenderData)\<close> on one row: every column of the payload is written, the
  row keeps its id and its \<open>updated_at\<close> (the payload has neither).
\<close>

definition writeColumns :: "tender_data \<Rightarrow> tender_row \<Rightarrow> tender_row" where
  "writeColumns d r =
     r\<lparr>title := data_title d,
       work_type := data_work_type d,
       province := Some (data_province d),
       budget := data_budget d,
       status := data_status d,
       deadline := data_deadline d,
       external_id := data_external_id d,
       description := data_description d,
       contracting_body := data_contracting_body d,
       region := data_region d,
       publication_date := data_publication_date d,
       cpv_code := data_cpv_code d,
       source_url := data_source_url d,
       is_active := data_is_active d,
       fetched_at := data_fetched_at d\<rparr>"

text \<open>The error object of a refused insert: message and code.\<close>

datatype store_error = StoreError string string

text \<open>
  The store as the sync service sees it: the table \<^verbatim>\<open>tenders\<close>, the table
  \<^verbatim>\<open>tenders_raw\<close> (external id, instant, payload), and the store's answer to an
  insert into \<^verbatim>\<open>tenders\<close>: an error, or the new row with the id and the
  \<open>updated_at\<close> that the store gives it.
\<close>

record sync_store =
  tenders :: "tender_row list"
  tenders_raw :: "(string \<times> int \<times> placsp_tender) list"
  tenders_insert :: "tender_data \<Rightarrow> store_error + tender_row"

text \<open>\<^verbatim>\<open>shouldUpdate\<close>; \<open>now\<close> is \<^verbatim>\<open>Date.now()\<close>.\<close>

definition shouldUpdate :: "int \<Rightarrow> 'a tender_row_scheme \<Rightarrow> bool" where
  "shouldUpdate now existing =
     (let hoursSinceUpdate = real_of_int (now - updated_at existing) / (1000 * 60 * 60)
      in hoursSinceUpdate > 24)"

text \<open>\<^verbatim>\<open>saveRawTender\<close>\<close>

definition saveRawTender :: "int \<Rightarrow> sync_store \<Rightarrow> placsp_tender \<Rightarrow> string \<Rightarrow> sync_store" where
  "saveRawTender now db t externalId =
     db\<lparr>tenders_raw := tenders_raw db @ [(externalId, now, t)]\<rparr>"

text \<open>
  The state of the loop of \<^verbatim>\<open>processTenders\<close>: the store and the three lists it
  returns; an entry of \<^verbatim>\<open>errors\<close> is the tender's id with the error.
\<close>

record process_state =
  store :: sync_store
  newTenders :: "tender_row list"
  updatedTenders :: "tender_data list"
  errors :: "(string \<times> store_error) list"

text \<open>The body of the loop, for one tender.\<close>

definition processTender ::
  "int \<Rightarrow> string \<Rightarrow> process_state \<Rightarrow> placsp_tender \<Rightarrow> process_state" where
  "processTender now today st t =
     (let db = store st;
          externalId = or_str (p_contract_folder_id t) (p_id t);
          existing = single (filter (\<lambda>r. external_id r = externalId) (tenders db));
          tenderData = transformTenderData now today t
      in case existing of
           Some e \<Rightarrow>
             if shouldUpdate now e then
               st\<lparr>store :=
                     saveRawTender now
                       (db\<lparr>tenders :=
                             map (\<lambda>r. if tender_id r = tender_id e
                                       then writeColumns tenderData r else r) (tenders db)\<rparr>)
                       t externalId,
                  updatedTenders := updatedTenders st @ [tenderData]\<rparr>
             else st\<lparr>store := saveRawTender now db t externalId\<rparr>
         | None \<Rightarrow>
             (case tenders_insert db tenderData of
                Inl err \<Rightarrow> st\<lparr>errors := errors st @ [(p_id t, err)]\<rparr>
              | Inr inserted \<Rightarrow>
                  st\<lparr>store :=
                        saveRawTender now (db\<lparr>tenders := tenders db @ [inserted]\<rparr>)
                          t externalId,
                     newTenders := newTenders st @ [inserted]\<rparr>))"

definition processTenders ::
  "int \<Rightarrow> string \<Rightarrow> sync_store \<Rightarrow> placsp_tender list \<Rightarrow> process_state" where
  "processTenders now today db ts =
     foldl (processTender now today)
       \<lparr>store = db, newTenders = [], updatedTenders = [], errors = []\<rparr> ts"

section \<open>Sample data\<close>

text \<open>
  Concrete tenders, profiles, feed entries and stores, on which the theorems below are
  evaluated. The clock of the examples stands at instant 0.
\<close>

definition day_ms :: int where
  "day_ms = 1000 * 60 * 60 * 24"

definition tender_madrid :: tender where
  "tender_madrid =
     \<lparr>tender_id = ''t-1'', title = ''Reforma de edificio municipal'',
      work_type = ''Edificaci'' @ CHR 0xF3 # ''n'', province = Some ''Madrid'',
      budget = Some 300000, status = ''active'',
      deadline = Some (Instant (20 * day_ms))\<rparr>"

definition profile_madrid :: user_profile where
  "profile_madrid =
     \<lparr>user_id = ''u-1'', company_name = ''Obras SL'', onboarding_completed = True,
      preferred_province = Some ''Madrid'', locations = Some [''Toledo''],
      budget_min = Some 100000, budget_max = Some 500000, sectors = Some []\<rparr>"

definition profile_civil :: user_profile where
  "profile_civil =
     \<lparr>user_id = ''u-2'', company_name = ''Caminos SA'', onboarding_completed = True,
      preferred_province = Some ''Sevilla'', locations = Some [''Madrid''],
      budget_min = Some 100000, budget_max = Some 500000,
      sectors = Some [''Obra civil'']\<rparr>"

definition company_madrid :: company where
  "company_madrid =
     \<lparr>c_user_id = ''u-1'', c_subscription_status = Some ''active'',
      c_subscription_tier = Some ''pro''\<rparr>"

definition candidate_madrid :: user where
  "candidate_madrid =
     \<lparr>user_id = ''u-1'', company_name = ''Obras SL'', onboarding_completed = True,
      preferred_province = Some ''Madrid'', locations = Some [''Toledo''],
      budget_min = Some 100000, budget_max = Some 500000, sectors = Some [],
      subscription_status = Some ''active'', subscription_tier = Some ''pro''\<rparr>"

definition store_madrid :: matching_store where
  "store_madrid =
     \<lparr>companies = [company_madrid], user_profiles = [profile_madrid],
      user_tender_matches = [], companies_error = False, profiles_error = False,
      insert_error = (\<lambda>m. False)\<rparr>"




definition tender_below :: tender where
  "tender_below =
     tender_madrid\<lparr>budget := Some 2000000, status := ''closed'',
                    deadline := Some (Instant (10 * day_ms))\<rparr>"

text \<open>Feed entries: a classification code, a title, and for some a structured location.\<close>

definition entry_of :: "string \<Rightarrow> string \<Rightarrow> xml" where
  "entry_of code t =
     XObj [(''title'', XStr t),
           (''cac-place-ext:ContractFolderStatus'',
              XObj [(''cac:ProcurementProject'',
                       XObj [(''cac:RequiredCommodityClassification'',
                                XObj [(''cbc:ItemClassificationCode'', XStr code)])])])]"

definition entry_located :: "string \<Rightarrow> string \<Rightarrow> xml" where
  "entry_located t subentity =
     XObj [(''title'', XStr t),
           (''cac-place-ext:ContractFolderStatus'',
              XObj [(''cac:ProcurementProject'',
                       XObj [(''cac:RealizedLocation'',
                                XObj [(''cac:Address'',
                                         XObj [(''cbc:CountrySubentity'',
                                                XStr subentity)])])])])]"

definition entry_building :: xml where
  "entry_building = entry_of ''45210000'' ''Reforma de edificio en Madrid''"

definition entry_services :: xml where
  "entry_services = entry_of ''79000000'' ''Servicios de limpieza en Madrid''"

definition entry_plain :: xml where
  "entry_plain = XObj [(''title'', XStr ''Obras en Almeria'')]"

definition entry_two_names :: xml where
  "entry_two_names = XObj [(''title'', XStr ''Obras en Madrid y Albacete'')]"

definition entry_coded :: xml where
  "entry_coded = entry_located ''Obras en Madrid'' ''ES300''"


text \<open>A stored tender, last updated at instant 0, and the same tender with a new title.\<close>

definition row_a :: tender_row where
  "row_a =
     \<lparr>tender_id = ''id-1'', title = ''A'', work_type = ''Edificaci'' @ CHR 0xF3 # ''n'',
      province = Some ''Madrid'', budget = Some 300000, status = ''active'',
      deadline = None,
      external_id = ''EXP-1'', description = '''',
      contracting_body = ''Ayuntamiento de Madrid'',
      region = Some ''Comunidad de Madrid'', publication_date = ''2024-01-01'',
      cpv_code = ''45210000'', source_url = None, is_active = True, fetched_at = 0,
      updated_at = 0\<rparr>"

definition feed_b :: placsp_tender where
  "feed_b =
     \<lparr>p_id = ''entry-1'', p_contract_folder_id = Some ''EXP-1'', p_title = ''B'',
      p_summary = '''', p_description = '''',
      p_contracting_body = ''Ayuntamiento de Madrid'', p_province = Some ''Madrid'',
      p_cpv_code = Some ''45210000'', p_budget = Some 300000,
      p_published = Some ''2024-01-01'', p_updated = None, p_deadline = None,
      p_link = None, p_status = ''PUB''\<rparr>"

definition state_a :: process_state where
  "state_a =
     \<lparr>store = \<lparr>tenders = [row_a], tenders_raw = [],
                tenders_insert = (\<lambda>d. Inl (StoreError ''duplicate key'' ''23505''))\<rparr>,
      newTenders = [], updatedTenders = [], errors = []\<rparr>"

section \<open>The score: range of each step\<close>

lemma provinceScore_bounds: "10 \<le> provinceScore t u \<and> provinceScore t u \<le> 40"
  by (simp add: provinceScore_def)

lemma budgetScore_bounds: "5 \<le> budgetScore t u \<and> budgetScore t u \<le> 30"
  by (simp add: budgetScore_def Let_def)

lemma sectorScore_bounds: "10 \<le> sectorScore t u \<and> sectorScore t u \<le> 20"
  by (simp add: sectorScore_def split: option.split)


lemma deadlineScore_bounds: "0 \<le> deadlineScore now t \<and> deadlineScore now t \<le> 5"
  by (simp add: deadlineScore_def split: option.split)





section \<open>The score: the deadline in milliseconds\<close>

text \<open>The rounded-up number of days exceeds \<open>k\<close> exactly when the distance exceeds \<open>k\<close> days.\<close>

lemma days_gt:
  "(\<lceil>real_of_int x / (1000 * 60 * 60 * 24)\<rceil> > k) = (x > k * 86400000)"
proof -
  have "(\<lceil>real_of_int x / 86400000\<rceil> > k) = (real_of_int k < real_of_int x / 86400000)"
    by (simp add: less_ceiling_iff)
  also have "\<dots> = (real_of_int k * 86400000 < real_of_int x)"
    by (simp add: pos_less_divide_eq)
  also have "\<dots> = (real_of_int (k * 86400000) < real_of_int x)"
    by simp
  also have "\<dots> = (k * 86400000 < x)"
    by (rule of_int_less_iff)
  finally show ?thesis by simp
qed

lemma deadlineScore_Instant:
  "deadline t = Some (Instant d) \<Longrightarrow>
   deadlineScore now t =
     (if d - now > 15 * 86400000 then 5 else if d - now > 7 * 86400000 then 3 else 0)"
  unfolding deadlineScore_def getDaysUntilDeadline_def
  by (simp only: option.case timestamp.case days_gt)

lemma deadlineScore_ms:
  "deadlineScore now t =
     (case deadline t of
        None \<Rightarrow> 0
      | Some InvalidDate \<Rightarrow> 0
      | Some (Instant d) \<Rightarrow>
          (if d - now > 15 * 86400000 then 5
           else if d - now > 7 * 86400000 then 3
           else 0))"
proof (cases "deadline t")
  case None
  then show ?thesis by (simp add: deadlineScore_def)
next
  case (Some ts)
  show ?thesis
  proof (cases ts)
    case (Instant d)
    with Some show ?thesis by (simp add: deadlineScore_Instant)
  next
    case InvalidDate
    with Some show ?thesis by (simp add: deadlineScore_def getDaysUntilDeadline_def)
  qed
qed

text \<open>
  C8, as amended. The fourth step adds 5 when the status is \<open>active\<close>, and then 5 when
  the deadline is more than 15 days away, 3 when it is more than 7 and at most 15 days
  away, and nothing otherwise: nothing for a deadline at most 7 days away (exactly 7 days
  included), for a tender without deadline and for a date that does not parse.
\<close>

theorem recency_signal:
  "calculateMatchScore now t u =
     min (provinceScore t u + budgetScore t u + sectorScore t u
          + (if status t = ''active'' then 5 else 0)
          + (case deadline t of
               None \<Rightarrow> 0
             | Some InvalidDate \<Rightarrow> 0
             | Some (Instant d) \<Rightarrow>
                 (if d - now > 15 * 86400000 then 5
                  else if d - now > 7 * 86400000 then 3
                  else 0))) 100"
  unfolding calculateMatchScore_def statusScore_def deadlineScore_ms ..

theorem recency_signal_witness:
  "calculateMatchScore 0 (tender_madrid\<lparr>deadline := Some (Instant (7 * 86400000 + 1))\<rparr>)
     profile_madrid
   = min (40 + 30 + 15 + 5 + 3) 100"
proof -
  have "provinceScore (tender_madrid\<lparr>deadline := Some (Instant (7 * 86400000 + 1))\<rparr>)
          profile_madrid = 40"
    and "budgetScore (tender_madrid\<lparr>deadline := Some (Instant (7 * 86400000 + 1))\<rparr>)
          profile_madrid = 30"
    and "sectorScore (tender_madrid\<lparr>deadline := Some (Instant (7 * 86400000 + 1))\<rparr>)
          profile_madrid = 15"
    and "status (tender_madrid\<lparr>deadline := Some (Instant (7 * 86400000 + 1))\<rparr>) = ''active''"
    by code_simp+
  with recency_signal[of 0 "tender_madrid\<lparr>deadline := Some (Instant (7 * 86400000 + 1))\<rparr>"
      profile_madrid]
  show ?thesis by simp
qed

text \<open>
  C8, as the claim states it, fails: a deadline exactly 7 days away rounds to 7 days, which
  is not more than 7, and adds nothing (the score is 90, not 93).
\<close>

theorem recency_seven_days_counterexample:
  "getDaysUntilDeadline 0 (Instant (7 * day_ms)) = Some 7
   \<and> deadlineScore 0 (tender_madrid\<lparr>deadline := Some (Instant (7 * day_ms))\<rparr>) = 0
   \<and> calculateMatchScore 0 (tender_madrid\<lparr>deadline := Some (Instant (7 * day_ms))\<rparr>)
        profile_madrid = 40 + 30 + 15 + 5 + 0"
  by code_simp

section \<open>The score: one step moves, the others stay\<close>

lemma min_mono_first:
  "(a::int) \<le> a' \<Longrightarrow> min (a + b + c + d + e) 100 \<le> min (a' + b + c + d + e) 100"
  by simp

lemma min_mono_second:
  "(b::int) \<le> b' \<Longrightarrow> min (a + b + c + d + e) 100 \<le> min (a + b' + c + d + e) 100"
  by simp

lemma min_mono_third:
  "(c::int) \<le> c' \<Longrightarrow> min (a + b + c + d + e) 100 \<le> min (a + b + c' + d + e) 100"
  by simp

lemma min_mono_fourth:
  "(d::int) \<le> d' \<Longrightarrow> min (a + b + c + d + e) 100 \<le> min (a + b + c + d' + e) 100"
  by simp

lemma min_mono_fifth:
  "(e::int) \<le> e' \<Longrightarrow> min (a + b + c + d + e) 100 \<le> min (a + b + c + d + e') 100"
  by simp

lemma province_step:
  assumes "pp = province t \<or> (\<exists>l p. ls = Some l \<and> province t = Some p \<and> p \<in> set l)"
  shows "calculateMatchScore now t u
         \<le> calculateMatchScore now t (u\<lparr>preferred_province := pp, locations := ls\<rparr>)"
proof -
  let ?u' = "u\<lparr>preferred_province := pp, locations := ls\<rparr>"
  have "provinceScore t ?u' = 40"
    using assms by (auto simp: provinceScore_def)
  then have le: "provinceScore t u \<le> provinceScore t ?u'"
    using provinceScore_bounds[of t u] by simp
  have same: "budgetScore t ?u' = budgetScore t u" "sectorScore t ?u' = sectorScore t u"
    by (simp_all add: budgetScore_def sectorScore_def split: option.split)
  show ?thesis
    unfolding calculateMatchScore_def same by (rule min_mono_first[OF le])
qed

lemma budget_frame:
  "provinceScore (t\<lparr>budget := x\<rparr>) u = provinceScore t u"
  "sectorScore (t\<lparr>budget := x\<rparr>) u = sectorScore t u"
  "statusScore (t\<lparr>budget := x\<rparr>) = statusScore t"
  "deadlineScore now (t\<lparr>budget := x\<rparr>) = deadlineScore now t"
  by (simp_all add: provinceScore_def sectorScore_def statusScore_def deadlineScore_def
        split: option.split)

lemma budget_step:
  assumes "budgetScore (t\<lparr>budget := x\<rparr>) u \<le> budgetScore (t\<lparr>budget := x'\<rparr>) u"
  shows "calculateMatchScore now (t\<lparr>budget := x\<rparr>) u
         \<le> calculateMatchScore now (t\<lparr>budget := x'\<rparr>) u"
  unfolding calculateMatchScore_def budget_frame by (rule min_mono_second[OF assms])

lemma budget_in_range:
  assumes "truthy_num (budget_min u)" "truthy_num (budget_max u)" "b' \<noteq> 0"
    "the (budget_min u) \<le> b'" "b' \<le> the (budget_max u)"
  shows "budgetScore (t\<lparr>budget := Some b'\<rparr>) u = 30"
  using assms by (simp add: budgetScore_def truthy_num_def)

lemma budget_near:
  assumes "truthy_num (budget_min u)" "truthy_num (budget_max u)" "b' \<noteq> 0"
    "the (budget_min u) * 0.5 \<le> b'" "b' \<le> the (budget_max u) * 2"
  shows "20 \<le> budgetScore (t\<lparr>budget := Some b'\<rparr>) u"
  using assms by (simp add: budgetScore_def truthy_num_def Let_def)

lemma budget_outside:
  assumes "truthy_num (budget_min u)" "truthy_num (budget_max u)" "b \<noteq> 0"
    "\<not> (the (budget_min u) \<le> b \<and> b \<le> the (budget_max u))"
    "\<not> (the (budget_min u) * 0.5 \<le> b \<and> b \<le> the (budget_max u) * 2)"
  shows "budgetScore (t\<lparr>budget := Some b\<rparr>) u = 5"
  using assms by (simp add: budgetScore_def truthy_num_def Let_def)

lemma sector_frame:
  "provinceScore (t\<lparr>title := x, work_type := y\<rparr>) u = provinceScore t u"
  "budgetScore (t\<lparr>title := x, work_type := y\<rparr>) u = budgetScore t u"
  "statusScore (t\<lparr>title := x, work_type := y\<rparr>) = statusScore t"
  "deadlineScore now (t\<lparr>title := x, work_type := y\<rparr>) = deadlineScore now t"
  by (simp_all add: provinceScore_def budgetScore_def statusScore_def deadlineScore_def
        split: option.split)

lemma sector_step:
  assumes "sectors u = Some ss" "ss \<noteq> []"
    "hasSectorMatch (toLowerCase wt) (toLowerCase ti) ss"
  shows "calculateMatchScore now t u
         \<le> calculateMatchScore now (t\<lparr>title := ti, work_type := wt\<rparr>) u"
proof -
  have "sectorScore (t\<lparr>title := ti, work_type := wt\<rparr>) u = 20"
    using assms by (simp add: sectorScore_def)
  then have le: "sectorScore t u \<le> sectorScore (t\<lparr>title := ti, work_type := wt\<rparr>) u"
    using sectorScore_bounds[of t u] by simp
  show ?thesis
    unfolding calculateMatchScore_def sector_frame by (rule min_mono_third[OF le])
qed

lemma status_frame:
  "provinceScore (t\<lparr>status := x\<rparr>) u = provinceScore t u"
  "budgetScore (t\<lparr>status := x\<rparr>) u = budgetScore t u"
  "sectorScore (t\<lparr>status := x\<rparr>) u = sectorScore t u"
  "deadlineScore now (t\<lparr>status := x\<rparr>) = deadlineScore now t"
  by (simp_all add: provinceScore_def budgetScore_def sectorScore_def deadlineScore_def
        split: option.split)

lemma status_step:
  "calculateMatchScore now (t\<lparr>status := s\<rparr>) u
   \<le> calculateMatchScore now (t\<lparr>status := ''active''\<rparr>) u"
proof -
  have le: "statusScore (t\<lparr>status := s\<rparr>) \<le> statusScore (t\<lparr>status := ''active''\<rparr>)"
    by (simp add: statusScore_def)
  show ?thesis
    unfolding calculateMatchScore_def status_frame by (rule min_mono_fourth[OF le])
qed

lemma deadline_frame:
  "provinceScore (t\<lparr>deadline := x\<rparr>) u = provinceScore t u"
  "budgetScore (t\<lparr>deadline := x\<rparr>) u = budgetScore t u"
  "sectorScore (t\<lparr>deadline := x\<rparr>) u = sectorScore t u"
  "statusScore (t\<lparr>deadline := x\<rparr>) = statusScore t"
  by (simp_all add: provinceScore_def budgetScore_def sectorScore_def statusScore_def
        split: option.split)

lemma deadline_step:
  assumes "deadlineScore now (t\<lparr>deadline := x\<rparr>) \<le> deadlineScore now (t\<lparr>deadline := x'\<rparr>)"
  shows "calculateMatchScore now (t\<lparr>deadline := x\<rparr>) u
         \<le> calculateMatchScore now (t\<lparr>deadline := x'\<rparr>) u"
  unfolding calculateMatchScore_def deadline_frame by (rule min_mono_fifth[OF assms])

text \<open>
  C3. With everything else fixed, the score does not go down when one signal moves to a
  better tier:
  \<^item> the profile's province data change to an exact match (preferred province, or a
    location) with the tender's province;
  \<^item> the tender's budget changes to one inside the profile's range \<open>[min, max]\<close>
    (from any budget), or to one inside \<open>[min * 0.5, max * 2]\<close> from one outside both
    ranges;
  \<^item> the tender's title and work type change to ones that a keyword of the profile's
    sectors matches;
  \<^item> the status changes to \<open>active\<close>;
  \<^item> the deadline moves later, or a tender without deadline gets one.
\<close>

theorem score_monotone_in_tier:
  fixes t :: "'a tender_scheme" and u :: "'b user_profile_scheme"
  shows
  "(pp = province t \<or> (\<exists>l p. ls = Some l \<and> province t = Some p \<and> p \<in> set l) \<longrightarrow>
      calculateMatchScore now t u
      \<le> calculateMatchScore now t (u\<lparr>preferred_province := pp, locations := ls\<rparr>))
   \<and> (truthy_num (budget_min u) \<and> truthy_num (budget_max u) \<and> b \<noteq> 0 \<and> b_in \<noteq> 0
        \<and> the (budget_min u) \<le> b_in \<and> b_in \<le> the (budget_max u) \<longrightarrow>
      calculateMatchScore now (t\<lparr>budget := Some b\<rparr>) u
      \<le> calculateMatchScore now (t\<lparr>budget := Some b_in\<rparr>) u)
   \<and> (truthy_num (budget_min u) \<and> truthy_num (budget_max u) \<and> b_out \<noteq> 0 \<and> b_near \<noteq> 0
        \<and> the (budget_min u) * 0.5 \<le> b_near \<and> b_near \<le> the (budget_max u) * 2
        \<and> \<not> (the (budget_min u) \<le> b_out \<and> b_out \<le> the (budget_max u))
        \<and> \<not> (the (budget_min u) * 0.5 \<le> b_out \<and> b_out \<le> the (budget_max u) * 2) \<longrightarrow>
      calculateMatchScore now (t\<lparr>budget := Some b_out\<rparr>) u
      \<le> calculateMatchScore now (t\<lparr>budget := Some b_near\<rparr>) u)
   \<and> (sectors u = Some ss \<and> ss \<noteq> [] \<and> hasSectorMatch (toLowerCase wt) (toLowerCase ti) ss \<longrightarrow>
      calculateMatchScore now t u
      \<le> calculateMatchScore now (t\<lparr>title := ti, work_type := wt\<rparr>) u)
   \<and> calculateMatchScore now (t\<lparr>status := s\<rparr>) u
      \<le> calculateMatchScore now (t\<lparr>status := ''active''\<rparr>) u
   \<and> (d \<le> d' \<longrightarrow>
      calculateMatchScore now (t\<lparr>deadline := Some (Instant d)\<rparr>) u
      \<le> calculateMatchScore now (t\<lparr>deadline := Some (Instant d')\<rparr>) u)
   \<and> calculateMatchScore now (t\<lparr>deadline := None\<rparr>) u
      \<le> calculateMatchScore now (t\<lparr>deadline := dl\<rparr>) u"
proof (intro conjI impI)
  assume "pp = province t \<or> (\<exists>l p. ls = Some l \<and> province t = Some p \<and> p \<in> set l)"
  then show "calculateMatchScore now t u
      \<le> calculateMatchScore now t (u\<lparr>preferred_province := pp, locations := ls\<rparr>)"
    by (rule province_step)
next
  assume h: "truthy_num (budget_min u) \<and> truthy_num (budget_max u) \<and> b \<noteq> 0 \<and> b_in \<noteq> 0
        \<and> the (budget_min u) \<le> b_in \<and> b_in \<le> the (budget_max u)"
  then have "budgetScore (t\<lparr>budget := Some b_in\<rparr>) u = 30"
    by (simp add: budget_in_range)
  then have "budgetScore (t\<lparr>budget := Some b\<rparr>) u \<le> budgetScore (t\<lparr>budget := Some b_in\<rparr>) u"
    using budgetScore_bounds[of "t\<lparr>budget := Some b\<rparr>" u] by simp
  then show "calculateMatchScore now (t\<lparr>budget := Some b\<rparr>) u
      \<le> calculateMatchScore now (t\<lparr>budget := Some b_in\<rparr>) u"
    by (rule budget_step)
next
  assume h: "truthy_num (budget_min u) \<and> truthy_num (budget_max u) \<and> b_out \<noteq> 0 \<and> b_near \<noteq> 0
        \<and> the (budget_min u) * 0.5 \<le> b_near \<and> b_near \<le> the (budget_max u) * 2
        \<and> \<not> (the (budget_min u) \<le> b_out \<and> b_out \<le> the (budget_max u))
        \<and> \<not> (the (budget_min u) * 0.5 \<le> b_out \<and> b_out \<le> the (budget_max u) * 2)"
  then have "20 \<le> budgetScore (t\<lparr>budget := Some b_near\<rparr>) u"
    by (simp add: budget_near)
  moreover from h have "budgetScore (t\<lparr>budget := Some b_out\<rparr>) u = 5"
    by (intro budget_outside) simp_all
  ultimately have
    "budgetScore (t\<lparr>budget := Some b_out\<rparr>) u \<le> budgetScore (t\<lparr>budget := Some b_near\<rparr>) u"
    by simp
  then show "calculateMatchScore now (t\<lparr>budget := Some b_out\<rparr>) u
      \<le> calculateMatchScore now (t\<lparr>budget := Some b_near\<rparr>) u"
    by (rule budget_step)
next
  assume "sectors u = Some ss \<and> ss \<noteq> [] \<and> hasSectorMatch (toLowerCase wt) (toLowerCase ti) ss"
  then show "calculateMatchScore now t u
      \<le> calculateMatchScore now (t\<lparr>title := ti, work_type := wt\<rparr>) u"
    by (simp add: sector_step)
next
  show "calculateMatchScore now (t\<lparr>status := s\<rparr>) u
      \<le> calculateMatchScore now (t\<lparr>status := ''active''\<rparr>) u"
    by (rule status_step)
next
  assume "d \<le> d'"
  then have "deadlineScore now (t\<lparr>deadline := Some (Instant d)\<rparr>)
             \<le> deadlineScore now (t\<lparr>deadline := Some (Instant d')\<rparr>)"
    by (simp add: deadlineScore_Instant)
  then show "calculateMatchScore now (t\<lparr>deadline := Some (Instant d)\<rparr>) u
      \<le> calculateMatchScore now (t\<lparr>deadline := Some (Instant d')\<rparr>) u"
    by (rule deadline_step)
next
  have "deadlineScore now (t\<lparr>deadline := None\<rparr>) = 0"
    by (simp add: deadlineScore_def)
  then have "deadlineScore now (t\<lparr>deadline := None\<rparr>) \<le> deadlineScore now (t\<lparr>deadline := dl\<rparr>)"
    using deadlineScore_bounds[of now "t\<lparr>deadline := dl\<rparr>"] by simp
  then show "calculateMatchScore now (t\<lparr>deadline := None\<rparr>) u
      \<le> calculateMatchScore now (t\<lparr>deadline := dl\<rparr>) u"
    by (rule deadline_step)
qed

theorem score_monotone_in_tier_witness:
  "(Some ''Madrid'' = province tender_below
      \<and> calculateMatchScore 0 tender_below profile_civil
        \<le> calculateMatchScore 0 tender_below
            (profile_civil\<lparr>preferred_province := Some ''Madrid'', locations := None\<rparr>))
   \<and> (truthy_num (budget_min profile_civil) \<and> truthy_num (budget_max profile_civil)
        \<and> (2000000::real) \<noteq> 0 \<and> (300000::real) \<noteq> 0
        \<and> the (budget_min profile_civil) \<le> 300000 \<and> 300000 \<le> the (budget_max profile_civil)
      \<and> calculateMatchScore 0 (tender_below\<lparr>budget := Some 2000000\<rparr>) profile_civil
        \<le> calculateMatchScore 0 (tender_below\<lparr>budget := Some 300000\<rparr>) profile_civil)
   \<and> (the (budget_min profile_civil) * 0.5 \<le> 800000
        \<and> 800000 \<le> the (budget_max profile_civil) * 2
        \<and> \<not> (the (budget_min profile_civil) \<le> 2000000
              \<and> 2000000 \<le> the (budget_max profile_civil))
        \<and> \<not> (the (budget_min profile_civil) * 0.5 \<le> 2000000
              \<and> 2000000 \<le> the (budget_max profile_civil) * 2)
      \<and> calculateMatchScore 0 (tender_below\<lparr>budget := Some 2000000\<rparr>) profile_civil
        \<le> calculateMatchScore 0 (tender_below\<lparr>budget := Some 800000\<rparr>) profile_civil)
   \<and> (sectors profile_civil = Some [''Obra civil''] \<and> [''Obra civil''] \<noteq> []
        \<and> hasSectorMatch (toLowerCase ''Obra Civil'') (toLowerCase ''Mejora de carretera'')
             [''Obra civil'']
      \<and> calculateMatchScore 0 tender_below profile_civil
        \<le> calculateMatchScore 0
            (tender_below\<lparr>title := ''Mejora de carretera'', work_type := ''Obra Civil''\<rparr>)
            profile_civil)
   \<and> calculateMatchScore 0 (tender_below\<lparr>status := ''closed''\<rparr>) profile_civil
      \<le> calculateMatchScore 0 (tender_below\<lparr>status := ''active''\<rparr>) profile_civil
   \<and> ((5 * day_ms \<le> 20 * day_ms)
      \<and> calculateMatchScore 0 (tender_below\<lparr>deadline := Some (Instant (5 * day_ms))\<rparr>)
          profile_civil
        \<le> calculateMatchScore 0 (tender_below\<lparr>deadline := Some (Instant (20 * day_ms))\<rparr>)
            profile_civil)
   \<and> calculateMatchScore 0 (tender_below\<lparr>deadline := None\<rparr>) profile_civil
      \<le> calculateMatchScore 0 (tender_below\<lparr>deadline := Some InvalidDate\<rparr>) profile_civil"
proof -
  note th = score_monotone_in_tier[where t = tender_below and u = profile_civil and now = 0
      and pp = "Some ''Madrid''" and ls = None
      and b = 2000000 and b_in = 300000 and b_out = 2000000 and b_near = 800000
      and ss = "[''Obra civil'']" and wt = "''Obra Civil''" and ti = "''Mejora de carretera''"
      and s = "''closed''" and d = "5 * day_ms" and d' = "20 * day_ms"
      and dl = "Some InvalidDate"]
  have h1: "Some ''Madrid'' = province tender_below"
    by code_simp
  have h2: "truthy_num (budget_min profile_civil) \<and> truthy_num (budget_max profile_civil)
        \<and> (2000000::real) \<noteq> 0 \<and> (300000::real) \<noteq> 0
        \<and> the (budget_min profile_civil) \<le> 300000 \<and> 300000 \<le> the (budget_max profile_civil)"
    by code_simp
  have h3: "(800000::real) \<noteq> 0 \<and> the (budget_min profile_civil) * 0.5 \<le> 800000
        \<and> 800000 \<le> the (budget_max profile_civil) * 2
        \<and> \<not> (the (budget_min profile_civil) \<le> 2000000
              \<and> 2000000 \<le> the (budget_max profile_civil))
        \<and> \<not> (the (budget_min profile_civil) * 0.5 \<le> 2000000
              \<and> 2000000 \<le> the (budget_max profile_civil) * 2)"
    by code_simp
  have h4: "sectors profile_civil = Some [''Obra civil''] \<and> [''Obra civil''] \<noteq> []
        \<and> hasSectorMatch (toLowerCase ''Obra Civil'') (toLowerCase ''Mejora de carretera'')
             [''Obra civil'']"
    by code_simp
  have h5: "5 * day_ms \<le> 20 * day_ms"
    by code_simp
  from th h1 h2 h3 h4 h5 show ?thesis
    by blast
qed

section \<open>Candidates\<close>

lemma combine_province:
  "preferred_province (combine cs p) = preferred_province p"
  "locations (combine cs p) = locations p"
  by (simp_all add: combine_def Let_def user_profile.defs)

lemma getUsersByProvince_hasProvince:
  "u \<in> set (getUsersByProvince db prov) \<Longrightarrow> hasProvince prov u"
  by (auto simp: getUsersByProvince_def Let_def hasProvince_def combine_province
      split: if_splits)

text \<open>
  C9. A user that \<open>getUsersByProvince\<close> returns for the province of a tender gets the
  40 points of the province step for that tender: the branch that gives 10 points is not
  taken for a candidate.
\<close>

theorem candidates_score_exact_province:
  assumes "u \<in> set (getUsersByProvince db p)" and "province t = p"
  shows "provinceScore t u = 40 \<and> provinceScore t u \<noteq> 10"
  using getUsersByProvince_hasProvince[OF assms(1)] assms(2)
  by (auto simp: hasProvince_def provinceScore_def)

theorem candidates_score_exact_province_witness:
  "candidate_madrid \<in> set (getUsersByProvince store_madrid (Some ''Madrid''))
   \<and> province tender_madrid = Some ''Madrid''
   \<and> provinceScore tender_madrid candidate_madrid = 40"
proof -
  have l: "getUsersByProvince store_madrid (Some ''Madrid'') = [candidate_madrid]"
    by code_simp
  then have m: "candidate_madrid \<in> set (getUsersByProvince store_madrid (Some ''Madrid''))"
    by simp
  have p: "province tender_madrid = Some ''Madrid''"
    by code_simp
  from candidates_score_exact_province[OF m p] m p show ?thesis
    by simp
qed

section \<open>Creating matches\<close>

lemma single_at_most_one:
  "length rs \<le> 1 \<Longrightarrow> (single rs = None) = (rs = [])"
  by (cases rs rule: single.cases) simp_all



text \<open>
  The invariant gives the first hypothesis of the theorem, and a run keeps the invariant:
  a row is appended only for a pair that has none.
\<close>

lemma distinct_keys_filter:
  "distinct (map f xs) \<Longrightarrow> length (filter (\<lambda>x. f x = k) xs) \<le> 1"
proof (induction xs)
  case Nil
  show ?case by simp
next
  case (Cons x xs)
  show ?case
  proof (cases "f x = k")
    case True
    with Cons.prems have "k \<notin> f ` set xs" by auto
    then have "filter (\<lambda>x. f x = k) xs = []"
      by (auto simp: filter_empty_conv)
    with True show ?thesis by simp
  next
    case False
    with Cons show ?thesis by simp
  qed
qed

lemma uniqueMatches_at_most_one:
  assumes "uniqueMatches db"
  shows "length (matchesFor db uid tid) \<le> 1"
proof -
  have "matchesFor db uid tid
        = filter (\<lambda>m. (m_user_id m, m_tender_id m) = (uid, tid)) (user_tender_matches db)"
    by (simp add: matchesFor_def)
  with distinct_keys_filter[OF assms[unfolded uniqueMatches_def], of "(uid, tid)"]
  show ?thesis by simp
qed

lemma createMatch_keeps_unique:
  assumes "uniqueMatches db"
  shows "uniqueMatches (fst (createMatch now db u t matchScore))"
proof (cases "single (matchesFor db (user_id u) (tender_id t))")
  case (Some existing)
  with assms show ?thesis by (simp add: createMatch_def)
next
  case None
  with single_at_most_one[OF uniqueMatches_at_most_one[OF assms]]
  have "matchesFor db (user_id u) (tender_id t) = []" by simp
  then have fresh: "(user_id u, tender_id t)
      \<notin> set (map (\<lambda>m. (m_user_id m, m_tender_id m)) (user_tender_matches db))"
    by (auto simp: matchesFor_def filter_empty_conv)
  show ?thesis
  proof (cases "insert_error db (newMatch now u t matchScore)")
    case True
    with None assms show ?thesis by (simp add: createMatch_def Let_def)
  next
    case False
    with None assms fresh show ?thesis
      by (simp add: createMatch_def Let_def uniqueMatches_def newMatch_def)
  qed
qed

lemma matchUser_keeps_unique:
  assumes "uniqueMatches (fst st)"
  shows "uniqueMatches (fst (matchUser now t st u))"
proof -
  obtain db n byUser where st: "st = (db, n, byUser)"
    by (cases st)
  from assms st have db: "uniqueMatches db" by simp
  show ?thesis
  proof (cases "calculateMatchScore now t u \<ge> 60")
    case True
    with createMatch_keeps_unique[OF db, of now u t "calculateMatchScore now t u"]
    show ?thesis
      unfolding st matchUser_def
      by (auto simp: Let_def split: prod.splits option.splits)
  next
    case False
    with db show ?thesis
      unfolding st matchUser_def by (simp add: Let_def)
  qed
qed

lemma foldl_matchUser_keeps_unique:
  "uniqueMatches (fst st) \<Longrightarrow> uniqueMatches (fst (foldl (matchUser now t) st us))"
  by (induction us arbitrary: st) (simp_all add: matchUser_keeps_unique)

lemma matchTender_keeps_unique:
  assumes "uniqueMatches (fst st)"
  shows "uniqueMatches (fst (matchTender now st t))"
proof -
  obtain db n byUser where st: "st = (db, n, byUser)"
    by (cases st)
  show ?thesis
    unfolding st matchTender_def
    using foldl_matchUser_keeps_unique[OF assms[unfolded st]]
    by simp
qed

lemma matchTendersWithUsers_keeps_unique:
  assumes "uniqueMatches db"
  shows "uniqueMatches (fst (matchTendersWithUsers now db ts))"
proof -
  have "uniqueMatches (fst st) \<Longrightarrow> uniqueMatches (fst (foldl (matchTender now) st ts))"
    for st
    by (induction ts arbitrary: st) (simp_all add: matchTender_keeps_unique)
  from this[of "(db, 0, [])"] assms show ?thesis
    by (auto simp: matchTendersWithUsers_def split: prod.splits)
qed

text \<open>
  Over a whole run of \<open>matchTendersWithUsers\<close>, the matches that were in the store stay
  as they were, in front of the new ones, and \<open>totalMatches\<close> is the number of new ones.
\<close>

lemma matchUser_appends:
  "\<exists>new. user_tender_matches (fst (matchUser now t st u)) = user_tender_matches (fst st) @ new
         \<and> fst (snd (matchUser now t st u)) = fst (snd st) + length new"
  by (cases st)
     (auto simp: matchUser_def createMatch_def Let_def split: option.splits)

lemma foldl_matchUser_appends:
  "\<exists>new. user_tender_matches (fst (foldl (matchUser now t) st us))
           = user_tender_matches (fst st) @ new
         \<and> fst (snd (foldl (matchUser now t) st us)) = fst (snd st) + length new"
proof (induction us arbitrary: st)
  case Nil
  show ?case by simp
next
  case (Cons u us)
  obtain new1 where 1:
    "user_tender_matches (fst (matchUser now t st u)) = user_tender_matches (fst st) @ new1"
    "fst (snd (matchUser now t st u)) = fst (snd st) + length new1"
    using matchUser_appends by blast
  obtain new2 where 2:
    "user_tender_matches (fst (foldl (matchUser now t) (matchUser now t st u) us))
       = user_tender_matches (fst (matchUser now t st u)) @ new2"
    "fst (snd (foldl (matchUser now t) (matchUser now t st u) us))
       = fst (snd (matchUser now t st u)) + length new2"
    using Cons.IH by blast
  from 1 2 have
    "user_tender_matches (fst (foldl (matchUser now t) st (u # us)))
       = user_tender_matches (fst st) @ (new1 @ new2)
     \<and> fst (snd (foldl (matchUser now t) st (u # us))) = fst (snd st) + length (new1 @ new2)"
    by simp
  then show ?case by blast
qed

lemma matchTender_appends:
  "\<exists>new. user_tender_matches (fst (matchTender now st t)) = user_tender_matches (fst st) @ new
         \<and> fst (snd (matchTender now st t)) = fst (snd st) + length new"
proof -
  obtain a b c where st: "st = (a, b, c)"
    by (cases st)
  show ?thesis
    unfolding st matchTender_def
    using foldl_matchUser_appends[of now t "(a, b, c)" "getUsersByProvince a (province t)"]
    by simp
qed

lemma foldl_matchTender_appends:
  "\<exists>new. user_tender_matches (fst (foldl (matchTender now) st ts))
           = user_tender_matches (fst st) @ new
         \<and> fst (snd (foldl (matchTender now) st ts)) = fst (snd st) + length new"
proof (induction ts arbitrary: st)
  case Nil
  show ?case by simp
next
  case (Cons t ts)
  obtain new1 where 1:
    "user_tender_matches (fst (matchTender now st t)) = user_tender_matches (fst st) @ new1"
    "fst (snd (matchTender now st t)) = fst (snd st) + length new1"
    using matchTender_appends by blast
  obtain new2 where 2:
    "user_tender_matches (fst (foldl (matchTender now) (matchTender now st t) ts))
       = user_tender_matches (fst (matchTender now st t)) @ new2"
    "fst (snd (foldl (matchTender now) (matchTender now st t) ts))
       = fst (snd (matchTender now st t)) + length new2"
    using Cons.IH by blast
  from 1 2 have
    "user_tender_matches (fst (foldl (matchTender now) st (t # ts)))
       = user_tender_matches (fst st) @ (new1 @ new2)
     \<and> fst (snd (foldl (matchTender now) st (t # ts))) = fst (snd st) + length (new1 @ new2)"
    by simp
  then show ?case by blast
qed

lemma matchTendersWithUsers_total:
  "\<exists>new. user_tender_matches (fst (matchTendersWithUsers now db ts))
           = user_tender_matches db @ new
         \<and> totalMatches (snd (matchTendersWithUsers now db ts)) = length new"
  using foldl_matchTender_appends[of now "(db, 0, [])" ts]
  by (auto simp: matchTendersWithUsers_def split: prod.splits)

section \<open>Sector filter\<close>

lemma or_null_truthy: "or_null a = Some c \<Longrightarrow> truthy (Some c)"
  by (auto simp: or_null_def split: if_splits)

text \<open>What \<open>extractCPV\<close> returns is null or truthy, never the empty string.\<close>

lemma extractCPV_truthy: "extractCPV e = Some c \<Longrightarrow> truthy (Some c)"
  by (auto simp: extractCPV_def split: option.splits if_splits sum.splits dest: or_null_truthy)

text \<open>
  C7. The sector filter keeps an entry exactly when its classification code is extracted
  (not null) and the string form of the code starts with \<open>45\<close>; an entry whose code is not
  extracted is dropped.
\<close>

theorem construction_filter_iff:
  "filterByConstruction es =
     filter (\<lambda>e. case extractCPV e of
                    None \<Rightarrow> False
                  | Some c \<Rightarrow> startsWith (toString c) ''45'') es
   \<and> (extractCPV e = None \<longrightarrow> e \<notin> set (filterByConstruction es))"
proof -
  have "(let cpvCode = extractCPV x
         in if \<not> truthy cpvCode then False
            else (case cpvCode of None \<Rightarrow> False | Some c \<Rightarrow> startsWith (toString c) ''45''))
        = (case extractCPV x of None \<Rightarrow> False | Some c \<Rightarrow> startsWith (toString c) ''45'')"
    for x
    by (cases "extractCPV x") (simp_all add: extractCPV_truthy)
  then show ?thesis
    by (simp add: filterByConstruction_def)
qed

theorem construction_filter_iff_witness:
  "extractCPV entry_plain = None
   \<and> entry_plain \<notin> set (filterByConstruction [entry_building, entry_services, entry_plain])
   \<and> filterByConstruction [entry_building, entry_services, entry_plain] = [entry_building]"
proof -
  have n: "extractCPV entry_plain = None"
    by code_simp
  have f: "filter (\<lambda>e. case extractCPV e of
                    None \<Rightarrow> False
                  | Some c \<Rightarrow> startsWith (toString c) ''45'')
             [entry_building, entry_services, entry_plain] = [entry_building]"
    by code_simp
  note th = construction_filter_iff[of "[entry_building, entry_services, entry_plain]" entry_plain]
  have r: "filterByConstruction [entry_building, entry_services, entry_plain] = [entry_building]"
    using th[THEN conjunct1] f by (simp only:)
  have m: "entry_plain \<notin> set (filterByConstruction [entry_building, entry_services, entry_plain])"
    using th[THEN conjunct2] n by (rule mp)
  from n m r show ?thesis by (intro conjI)
qed

section \<open>Region filter\<close>


lemma searchProvincia_find:
  "searchProvincia text ps = map_option capitalize (find (includes_str text) ps)"
  by (induction ps) auto









section \<open>Province from the text\<close>

lemma upper_char_of:
  assumes "(n::nat) < 256"
  shows "upper_char (char_of n) =
           (if (97 \<le> n \<and> n \<le> 122) \<or> (224 \<le> n \<and> n \<le> 254 \<and> n \<noteq> 247)
            then char_of (n - 32) else char_of n)"
proof -
  have "(of_char (char_of n) :: nat) = n" using assms by simp
  then show ?thesis unfolding upper_char_def Let_def by (simp only:)
qed

lemma lower_char_of:
  assumes "(n::nat) < 256"
  shows "lower_char (char_of n) =
           (if (65 \<le> n \<and> n \<le> 90) \<or> (192 \<le> n \<and> n \<le> 222 \<and> n \<noteq> 215)
            then char_of (n + 32) else char_of n)"
proof -
  have "(of_char (char_of n) :: nat) = n" using assms by simp
  then show ?thesis unfolding lower_char_def Let_def by (simp only:)
qed

text \<open>Lower case undoes the upper case of a first letter.\<close>

lemma lower_upper_char: "lower_char (upper_char c) = lower_char c"
proof -
  define n where "n = (of_char c :: nat)"
  have n: "n < 256" unfolding n_def by simp
  have c: "c = char_of n" unfolding n_def by simp
  show ?thesis
  proof (cases "(97 \<le> n \<and> n \<le> 122) \<or> (224 \<le> n \<and> n \<le> 254 \<and> n \<noteq> 247)")
    case True
    then have up: "upper_char c = char_of (n - 32)"
      unfolding c using n by (simp only: upper_char_of if_True)
    from True n have m: "n - 32 < 256" by arith
    from True n have r:
      "(65 \<le> n - 32 \<and> n - 32 \<le> 90) \<or> (192 \<le> n - 32 \<and> n - 32 \<le> 222 \<and> n - 32 \<noteq> 215)"
      by arith
    from True have rt: "n - 32 + 32 = n" by arith
    from True have notup:
      "\<not> ((65 \<le> n \<and> n \<le> 90) \<or> (192 \<le> n \<and> n \<le> 222 \<and> n \<noteq> 215))"
      by arith
    have "lower_char (upper_char c) = char_of n"
      unfolding up using r rt by (simp only: lower_char_of[OF m] if_True)
    moreover have "lower_char c = char_of n"
      unfolding c using notup by (simp only: lower_char_of[OF n] if_False)
    ultimately show ?thesis by simp
  next
    case False
    then have "upper_char c = c"
      unfolding c using n by (simp only: upper_char_of if_False)
    then show ?thesis by simp
  qed
qed

lemma normalize_capitalize: "normalizeProvince (capitalize g) = normalizeProvince g"
proof (cases g)
  case Nil
  then show ?thesis by simp
next
  case (Cons c cs)
  have "toLowerCase (capitalize (c # cs)) = toLowerCase (c # cs)"
    by (simp add: toLowerCase_def lower_upper_char)
  then show ?thesis unfolding Cons normalizeProvince_def by simp
qed

text \<open>
  C5, as amended. When the structured location fields of an entry give no province, and
  the lower-cased text of title and summary includes a name of the list
  \<open>provincias\<close> as that list spells it, \<open>extractProvince\<close> returns the first name
  of the list that the text includes, with its first letter in upper case; the normal form
  of the result is the normal form of that name.
\<close>

theorem gazetteer_search:
  assumes "structuredProvince e = Inr None"
    and "g \<in> set provincias"
    and "includes_str (toLowerCase (entryText e)) g"
  shows "\<exists>g0. find (includes_str (toLowerCase (entryText e))) provincias = Some g0
              \<and> extractProvince e = Some (XStr (capitalize g0))
              \<and> normalizeProvince (capitalize g0) = normalizeProvince g0"
proof -
  from assms(2,3) obtain g0
    where g0: "find (includes_str (toLowerCase (entryText e))) provincias = Some g0"
    by (cases "find (includes_str (toLowerCase (entryText e))) provincias")
       (auto simp: find_None_iff)
  have "extractProvince e = Some (XStr (capitalize g0))"
    using assms(1) g0 by (simp add: extractProvince_def searchProvincia_find)
  with g0 normalize_capitalize[of g0] show ?thesis by blast
qed

theorem gazetteer_search_witness:
  "structuredProvince entry_two_names = Inr None
   \<and> ''madrid'' \<in> set provincias
   \<and> includes_str (toLowerCase (entryText entry_two_names)) ''madrid''
   \<and> find (includes_str (toLowerCase (entryText entry_two_names))) provincias
       = Some ''albacete''
   \<and> extractProvince entry_two_names = Some (XStr ''Albacete'')
   \<and> normalizeProvince ''Albacete'' = normalizeProvince ''albacete''"
proof -
  have h1: "structuredProvince entry_two_names = Inr None"
    and h2: "''madrid'' \<in> set provincias"
    and h3: "includes_str (toLowerCase (entryText entry_two_names)) ''madrid''"
    and f: "find (includes_str (toLowerCase (entryText entry_two_names))) provincias
             = Some ''albacete''"
    and c: "capitalize ''albacete'' = ''Albacete''"
    by code_simp+
  from gazetteer_search[OF h1 h2 h3] f c h1 h2 h3 show ?thesis
    by simp
qed

text \<open>
  C5, as the claim states it, fails in three ways. The text search is sensitive to
  accents: \<open>Obras en Almeria\<close> contains the name of the list once accents and case are
  folded, and no province is found. The structured field comes first: the entry with
  subentity \<open>ES300\<close> and \<open>Madrid\<close> in its title returns \<open>ES300\<close>. And the first name of
  the list wins: a title with \<open>Madrid\<close> and \<open>Albacete\<close> returns \<open>Albacete\<close>.
\<close>

theorem accentless_text_counterexample:
  "(''almer'' @ CHR 0xED # ''a'' \<in> set provincias
    \<and> includes_str (stripDiacritics (toLowerCase (entryText entry_plain)))
         (stripDiacritics (toLowerCase (''almer'' @ CHR 0xED # ''a'')))
    \<and> extractProvince entry_plain = None)
   \<and> (''madrid'' \<in> set provincias
    \<and> includes_str (stripDiacritics (toLowerCase (entryText entry_coded)))
         (stripDiacritics (toLowerCase ''madrid''))
    \<and> extractProvince entry_coded = Some (XStr ''ES300'')
    \<and> normalizeProvince ''ES300'' \<noteq> normalizeProvince ''madrid'')
   \<and> (''madrid'' \<in> set provincias
    \<and> includes_str (stripDiacritics (toLowerCase (entryText entry_two_names)))
         (stripDiacritics (toLowerCase ''madrid''))
    \<and> extractProvince entry_two_names = Some (XStr ''Albacete'')
    \<and> normalizeProvince ''Albacete'' \<noteq> normalizeProvince ''madrid'')"
  by code_simp

section \<open>Reconciliation\<close>

text \<open>\<open>shouldUpdate\<close> in milliseconds: more than 24 hours have passed.\<close>

lemma shouldUpdate_ms: "shouldUpdate now e = (now - updated_at e > 86400000)"
proof -
  have "(real_of_int (now - updated_at e) / 3600000 > 24)
        = (24 * 3600000 < real_of_int (now - updated_at e))"
    by (simp add: pos_less_divide_eq)
  also have "\<dots> = (real_of_int 86400000 < real_of_int (now - updated_at e))"
    by simp
  also have "\<dots> = (86400000 < now - updated_at e)"
    by (rule of_int_less_iff)
  finally show ?thesis
    by (simp add: shouldUpdate_def Let_def)
qed

text \<open>
  C4, as amended. When the store holds exactly one row with the external id of the
  tender, \<open>shouldUpdate\<close> decides: if the row's \<open>updated_at\<close> is more than 24 hours old,
  the payload is written over the row (its title becomes the tender's title); if it
  is 24 hours old or less, the table \<open>tenders\<close> is left as it was.
\<close>

theorem update_after_24h:
  assumes "filter (\<lambda>r. external_id r = or_str (p_contract_folder_id t) (p_id t))
             (tenders (store st)) = [e]"
  shows "shouldUpdate now e = (now - updated_at e > 86400000)
    \<and> tenders (store (processTender now today st t)) =
        (if now - updated_at e > 86400000
         then map (\<lambda>r. if tender_id r = tender_id e
                        then writeColumns (transformTenderData now today t) r else r)
                (tenders (store st))
         else tenders (store st))
    \<and> title (writeColumns (transformTenderData now today t) r)
        = or_str (Some (p_title t)) (''Sin t'' @ CHR 0xED # ''tulo'')"
proof (intro conjI)
  show "shouldUpdate now e = (now - updated_at e > 86400000)"
    by (rule shouldUpdate_ms)
  show "tenders (store (processTender now today st t)) =
        (if now - updated_at e > 86400000
         then map (\<lambda>r. if tender_id r = tender_id e
                        then writeColumns (transformTenderData now today t) r else r)
                (tenders (store st))
         else tenders (store st))"
    using assms
    by (simp add: processTender_def Let_def shouldUpdate_ms saveRawTender_def)
  show "title (writeColumns (transformTenderData now today t) r)
        = or_str (Some (p_title t)) (''Sin t'' @ CHR 0xED # ''tulo'')"
    by (simp add: writeColumns_def transformTenderData_def)
qed

theorem update_after_24h_witness:
  "filter (\<lambda>r. external_id r = or_str (p_contract_folder_id feed_b) (p_id feed_b))
     (tenders (store state_a)) = [row_a]
   \<and> shouldUpdate (86400000 + 1) row_a
   \<and> tenders (store (processTender (86400000 + 1) ''2024-01-02'' state_a feed_b))
      = [writeColumns (transformTenderData (86400000 + 1) ''2024-01-02'' feed_b) row_a]
   \<and> title (writeColumns (transformTenderData (86400000 + 1) ''2024-01-02'' feed_b) row_a)
      = ''B''"
proof -
  have h: "filter (\<lambda>r. external_id r = or_str (p_contract_folder_id feed_b) (p_id feed_b))
     (tenders (store state_a)) = [row_a]"
    by (simp add: state_a_def row_a_def feed_b_def or_str_def)
  have rows: "tenders (store state_a) = [row_a]"
    by (simp add: state_a_def)
  have old: "updated_at row_a = 0"
    by (simp add: row_a_def)
  have b: "or_str (Some (p_title feed_b)) (''Sin t'' @ CHR 0xED # ''tulo'') = ''B''"
    by (simp add: feed_b_def or_str_def)
  note th = update_after_24h[OF h, of "86400000 + 1" "''2024-01-02''" row_a]
  have s: "shouldUpdate (86400000 + 1) row_a"
    using th[THEN conjunct1] by (simp add: old)
  have w: "tenders (store (processTender (86400000 + 1) ''2024-01-02'' state_a feed_b))
      = [writeColumns (transformTenderData (86400000 + 1) ''2024-01-02'' feed_b) row_a]"
    using th[THEN conjunct2, THEN conjunct1] by (simp add: rows old)
  have ti: "title (writeColumns (transformTenderData (86400000 + 1) ''2024-01-02'' feed_b) row_a)
      = ''B''"
    using th[THEN conjunct2, THEN conjunct2] unfolding b .
  from h s w ti show ?thesis by (intro conjI)
qed

text \<open>
  C4, as the claim states it, fails at the boundary: a row that is exactly 24 hours old is
  at least 24 hours old, and it is not updated; its title stays \<open>A\<close> though the tender
  now carries the title \<open>B\<close>.
\<close>

theorem update_at_24h_counterexample:
  "86400000 - updated_at row_a \<ge> 24 * (1000 * 60 * 60)
   \<and> p_title feed_b \<noteq> title row_a
   \<and> filter (\<lambda>r. external_id r = or_str (p_contract_folder_id feed_b) (p_id feed_b))
        (tenders (store state_a)) = [row_a]
   \<and> \<not> shouldUpdate 86400000 row_a
   \<and> tenders (store (processTender 86400000 ''2024-01-02'' state_a feed_b)) = [row_a]
   \<and> map title (tenders (store (processTender 86400000 ''2024-01-02'' state_a feed_b)))
      = [''A'']"
  by (simp add: row_a_def feed_b_def state_a_def processTender_def Let_def
      shouldUpdate_def saveRawTender_def or_str_def)

end
